theory Spec2Isabelle
  imports Complex_Main "HOL-Library.Sublist"
begin

section \<open>User-visible texts\<close>

text \<open>
  The pages show Japanese texts. A \<^typ>\<open>string\<close> is a list of bytes, so every text of the
  source is written as its UTF-8 encoding; the constant's name says which text it is.
  The toasts of \<^verbatim>\<open>react-hot-toast\<close> are recorded in the order they are raised.
\<close>

definition txt_pending :: string where
  "txt_pending =
   [CHR 0xE5, CHR 0xBE, CHR 0x85, CHR 0xE6, CHR 0xA9, CHR 0x9F, CHR 0xE4, CHR 0xB8, CHR 0xAD]"

definition txt_running :: string where
  "txt_running =
   [CHR 0xE5, CHR 0xAE, CHR 0x9F, CHR 0xE8, CHR 0xA1, CHR 0x8C, CHR 0xE4, CHR 0xB8, CHR 0xAD]"

definition txt_completed :: string where
  "txt_completed =
   [CHR 0xE5, CHR 0xAE, CHR 0x8C, CHR 0xE4, CHR 0xBA, CHR 0x86]"

definition txt_failed :: string where
  "txt_failed =
   [CHR 0xE5, CHR 0xA4, CHR 0xB1, CHR 0xE6, CHR 0x95, CHR 0x97]"

definition txt_unknown :: string where
  "txt_unknown =
   [CHR 0xE4, CHR 0xB8, CHR 0x8D, CHR 0xE6, CHR 0x98, CHR 0x8E]"

definition msg_select_moderator :: string where
  "msg_select_moderator =
   [CHR 0xE3, CHR 0x83, CHR 0xA2, CHR 0xE3, CHR 0x83, CHR 0x87, CHR 0xE3, CHR 0x83, CHR 0xAC,
    CHR 0xE3, CHR 0x83, CHR 0xBC, CHR 0xE3, CHR 0x82, CHR 0xBF, CHR 0xE3, CHR 0x83, CHR 0xBC,
    CHR 0xE3, CHR 0x82, CHR 0x92, CHR 0x31, CHR 0xE3, CHR 0x81, CHR 0xA4, CHR 0xE4, CHR 0xBB,
    CHR 0xA5, CHR 0xE4, CHR 0xB8, CHR 0x8A, CHR 0xE9, CHR 0x81, CHR 0xB8, CHR 0xE6, CHR 0x8A,
    CHR 0x9E, CHR 0xE3, CHR 0x81, CHR 0x97, CHR 0xE3, CHR 0x81, CHR 0xA6, CHR 0xE3, CHR 0x81,
    CHR 0x8F, CHR 0xE3, CHR 0x81, CHR 0xA0, CHR 0xE3, CHR 0x81, CHR 0x95, CHR 0xE3, CHR 0x81,
    CHR 0x84]"

definition msg_select_outcome :: string where
  "msg_select_outcome =
   [CHR 0xE3, CHR 0x82, CHR 0xA2, CHR 0xE3, CHR 0x82, CHR 0xA6, CHR 0xE3, CHR 0x83, CHR 0x88,
    CHR 0xE3, CHR 0x82, CHR 0xAB, CHR 0xE3, CHR 0x83, CHR 0xA0, CHR 0xE3, CHR 0x82, CHR 0x92,
    CHR 0x31, CHR 0xE3, CHR 0x81, CHR 0xA4, CHR 0xE4, CHR 0xBB, CHR 0xA5, CHR 0xE4, CHR 0xB8,
    CHR 0x8A, CHR 0xE9, CHR 0x81, CHR 0xB8, CHR 0xE6, CHR 0x8A, CHR 0x9E, CHR 0xE3, CHR 0x81,
    CHR 0x97, CHR 0xE3, CHR 0x81, CHR 0xA6, CHR 0xE3, CHR 0x81, CHR 0x8F, CHR 0xE3, CHR 0x81,
    CHR 0xA0, CHR 0xE3, CHR 0x81, CHR 0x95, CHR 0xE3, CHR 0x81, CHR 0x84]"

definition msg_select_intervention :: string where
  "msg_select_intervention =
   [CHR 0xE4, CHR 0xBB, CHR 0x8B, CHR 0xE5, CHR 0x85, CHR 0xA5, CHR 0xE3, CHR 0x83, CHR 0x95,
    CHR 0xE3, CHR 0x83, CHR 0xA9, CHR 0xE3, CHR 0x82, CHR 0xB0, CHR 0xE3, CHR 0x82, CHR 0x92,
    CHR 0xE9, CHR 0x81, CHR 0xB8, CHR 0xE6, CHR 0x8A, CHR 0x9E, CHR 0xE3, CHR 0x81, CHR 0x97,
    CHR 0xE3, CHR 0x81, CHR 0xA6, CHR 0xE3, CHR 0x81, CHR 0x8F, CHR 0xE3, CHR 0x81, CHR 0xA0,
    CHR 0xE3, CHR 0x81, CHR 0x95, CHR 0xE3, CHR 0x81, CHR 0x84]"

definition msg_settings_saved :: string where
  "msg_settings_saved =
   [CHR 0xE8, CHR 0xA8, CHR 0xAD, CHR 0xE5, CHR 0xAE, CHR 0x9A, CHR 0xE3, CHR 0x82, CHR 0x92,
    CHR 0xE4, CHR 0xBF, CHR 0x9D, CHR 0xE5, CHR 0xAD, CHR 0x98, CHR 0xE3, CHR 0x81, CHR 0x97,
    CHR 0xE3, CHR 0x81, CHR 0xBE, CHR 0xE3, CHR 0x81, CHR 0x97, CHR 0xE3, CHR 0x81, CHR 0x9F]"

definition msg_settings_loaded :: string where
  "msg_settings_loaded =
   [CHR 0xE8, CHR 0xA8, CHR 0xAD, CHR 0xE5, CHR 0xAE, CHR 0x9A, CHR 0xE3, CHR 0x82, CHR 0x92,
    CHR 0xE8, CHR 0xAA, CHR 0xAD, CHR 0xE3, CHR 0x81, CHR 0xBF, CHR 0xE8, CHR 0xBE, CHR 0xBC,
    CHR 0xE3, CHR 0x81, CHR 0xBF, CHR 0xE3, CHR 0x81, CHR 0xBE, CHR 0xE3, CHR 0x81, CHR 0x97,
    CHR 0xE3, CHR 0x81, CHR 0x9F]"

definition msg_settings_not_found :: string where
  "msg_settings_not_found =
   [CHR 0xE4, CHR 0xBF, CHR 0x9D, CHR 0xE5, CHR 0xAD, CHR 0x98, CHR 0xE3, CHR 0x81, CHR 0x95,
    CHR 0xE3, CHR 0x82, CHR 0x8C, CHR 0xE3, CHR 0x81, CHR 0x9F, CHR 0xE8, CHR 0xA8, CHR 0xAD,
    CHR 0xE5, CHR 0xAE, CHR 0x9A, CHR 0xE3, CHR 0x81, CHR 0x8C, CHR 0xE8, CHR 0xA6, CHR 0x8B,
    CHR 0xE3, CHR 0x81, CHR 0xA4, CHR 0xE3, CHR 0x81, CHR 0x8B, CHR 0xE3, CHR 0x82, CHR 0x8A,
    CHR 0xE3, CHR 0x81, CHR 0xBE, CHR 0xE3, CHR 0x81, CHR 0x9B, CHR 0xE3, CHR 0x82, CHR 0x93]"

definition msg_settings_imported :: string where
  "msg_settings_imported =
   [CHR 0xE8, CHR 0xA8, CHR 0xAD, CHR 0xE5, CHR 0xAE, CHR 0x9A, CHR 0xE3, CHR 0x82, CHR 0x92,
    CHR 0xE3, CHR 0x82, CHR 0xA4, CHR 0xE3, CHR 0x83, CHR 0xB3, CHR 0xE3, CHR 0x83, CHR 0x9D,
    CHR 0xE3, CHR 0x83, CHR 0xBC, CHR 0xE3, CHR 0x83, CHR 0x88, CHR 0xE3, CHR 0x81, CHR 0x97,
    CHR 0xE3, CHR 0x81, CHR 0xBE, CHR 0xE3, CHR 0x81, CHR 0x97, CHR 0xE3, CHR 0x81, CHR 0x9F]"

definition msg_settings_import_failed :: string where
  "msg_settings_import_failed =
   [CHR 0xE8, CHR 0xA8, CHR 0xAD, CHR 0xE5, CHR 0xAE, CHR 0x9A, CHR 0xE3, CHR 0x83, CHR 0x95,
    CHR 0xE3, CHR 0x82, CHR 0xA1, CHR 0xE3, CHR 0x82, CHR 0xA4, CHR 0xE3, CHR 0x83, CHR 0xAB,
    CHR 0xE3, CHR 0x81, CHR 0xAE, CHR 0xE8, CHR 0xAA, CHR 0xAD, CHR 0xE3, CHR 0x81, CHR 0xBF,
    CHR 0xE8, CHR 0xBE, CHR 0xBC, CHR 0xE3, CHR 0x81, CHR 0xBF, CHR 0xE3, CHR 0x81, CHR 0xAB,
    CHR 0xE5, CHR 0xA4, CHR 0xB1, CHR 0xE6, CHR 0x95, CHR 0x97, CHR 0xE3, CHR 0x81, CHR 0x97,
    CHR 0xE3, CHR 0x81, CHR 0xBE, CHR 0xE3, CHR 0x81, CHR 0x97, CHR 0xE3, CHR 0x81, CHR 0x9F]"

definition msg_analysis_completed :: string where
  "msg_analysis_completed =
   [CHR 0xE5, CHR 0x88, CHR 0x86, CHR 0xE6, CHR 0x9E, CHR 0x90, CHR 0xE3, CHR 0x81, CHR 0x8C,
    CHR 0xE5, CHR 0xAE, CHR 0x8C, CHR 0xE4, CHR 0xBA, CHR 0x86, CHR 0xE3, CHR 0x81, CHR 0x97,
    CHR 0xE3, CHR 0x81, CHR 0xBE, CHR 0xE3, CHR 0x81, CHR 0x97, CHR 0xE3, CHR 0x81, CHR 0x9F]"

definition msg_analysis_failed :: string where
  "msg_analysis_failed =
   [CHR 0xE5, CHR 0x88, CHR 0x86, CHR 0xE6, CHR 0x9E, CHR 0x90, CHR 0xE4, CHR 0xB8, CHR 0xAD,
    CHR 0xE3, CHR 0x81, CHR 0xAB, CHR 0xE3, CHR 0x82, CHR 0xA8, CHR 0xE3, CHR 0x83, CHR 0xA9,
    CHR 0xE3, CHR 0x83, CHR 0xBC, CHR 0xE3, CHR 0x81, CHR 0x8C, CHR 0xE7, CHR 0x99, CHR 0xBA,
    CHR 0xE7, CHR 0x94, CHR 0x9F, CHR 0xE3, CHR 0x81, CHR 0x97, CHR 0xE3, CHR 0x81, CHR 0xBE,
    CHR 0xE3, CHR 0x81, CHR 0x97, CHR 0xE3, CHR 0x81, CHR 0x9F]"

definition msg_analysis_started :: string where
  "msg_analysis_started =
   [CHR 0xE5, CHR 0x88, CHR 0x86, CHR 0xE6, CHR 0x9E, CHR 0x90, CHR 0xE3, CHR 0x82, CHR 0x92,
    CHR 0xE9, CHR 0x96, CHR 0x8B, CHR 0xE5, CHR 0xA7, CHR 0x8B, CHR 0xE3, CHR 0x81, CHR 0x97,
    CHR 0xE3, CHR 0x81, CHR 0xBE, CHR 0xE3, CHR 0x81, CHR 0x97, CHR 0xE3, CHR 0x81, CHR 0x9F]"

definition msg_start_error_prefix :: string where
  "msg_start_error_prefix =
   [CHR 0xE5, CHR 0x88, CHR 0x86, CHR 0xE6, CHR 0x9E, CHR 0x90, CHR 0xE9, CHR 0x96, CHR 0x8B,
    CHR 0xE5, CHR 0xA7, CHR 0x8B, CHR 0xE3, CHR 0x82, CHR 0xA8, CHR 0xE3, CHR 0x83, CHR 0xA9,
    CHR 0xE3, CHR 0x83, CHR 0xBC, CHR 0x3A, CHR 0x20]"

definition msg_cancelled :: string where
  "msg_cancelled =
   [CHR 0xE5, CHR 0x88, CHR 0x86, CHR 0xE6, CHR 0x9E, CHR 0x90, CHR 0xE3, CHR 0x82, CHR 0x92,
    CHR 0xE3, CHR 0x82, CHR 0xAD, CHR 0xE3, CHR 0x83, CHR 0xA3, CHR 0xE3, CHR 0x83, CHR 0xB3,
    CHR 0xE3, CHR 0x82, CHR 0xBB, CHR 0xE3, CHR 0x83, CHR 0xAB, CHR 0xE3, CHR 0x81, CHR 0x97,
    CHR 0xE3, CHR 0x81, CHR 0xBE, CHR 0xE3, CHR 0x81, CHR 0x97, CHR 0xE3, CHR 0x81, CHR 0x9F]"

definition msg_cancel_error_prefix :: string where
  "msg_cancel_error_prefix =
   [CHR 0xE3, CHR 0x82, CHR 0xAD, CHR 0xE3, CHR 0x83, CHR 0xA3, CHR 0xE3, CHR 0x83, CHR 0xB3,
    CHR 0xE3, CHR 0x82, CHR 0xBB, CHR 0xE3, CHR 0x83, CHR 0xAB, CHR 0xE3, CHR 0x82, CHR 0xA8,
    CHR 0xE3, CHR 0x83, CHR 0xA9, CHR 0xE3, CHR 0x83, CHR 0xBC, CHR 0x3A, CHR 0x20]"

datatype toast = ToastSuccess string | ToastError string

section \<open>Data model (types/index.ts)\<close>

text \<open>
  The interfaces of the source become records, field for field; the fields of type
  \<^verbatim>\<open>any\<close> (\<^verbatim>\<open>sample_values\<close>, \<^verbatim>\<open>preview_data\<close>, \<^verbatim>\<open>summary\<close>) carry no structure the
  pages read and are left out, and the field \<^verbatim>\<open>notes\<close> is called \<open>result_notes\<close>.
  Several interfaces share field names (\<^verbatim>\<open>job_id\<close>, \<^verbatim>\<open>status\<close>, \<^verbatim>\<open>moderator\<close>); the
  record name qualifies them where needed.

  A TypeScript \<^verbatim>\<open>number\<close> that a page compares against a threshold is a \<^typ>\<open>real\<close>:
  every finite double is a real number and \<^verbatim>\<open><\<close> on finite doubles is the order of the
  reals. The literal \<^verbatim>\<open>0.05\<close> denotes the double nearest to \<open>1/20\<close>, which is the least
  double not below \<open>1/20\<close>, so for a double \<open>q\<close> the test \<^verbatim>\<open>q < 0.05\<close> is \<open>q < 1/20\<close>.
  Counts and sizes are integers. Types are erased when the pages run: a status is whatever
  string the server sent, so \<^verbatim>\<open>status\<close> is a \<^typ>\<open>string\<close> and the union type
  \<^verbatim>\<open>AnalysisStatus\<close> is the list of its members.
\<close>

type_synonym DataType = string

record ColumnInfo =
  name :: string
  data_type :: DataType
  unique_count :: int
  missing_count :: int
  missing_rate :: real

record UploadResponse =
  job_id :: string
  filename :: string
  columns :: "ColumnInfo list"
  message :: string

record VariableMapping =
  moderators :: "string list"
  outcomes :: "string list"
  intervention :: string

record DataProcessingSettings =
  center_outcomes :: bool
  center_moderators :: bool
  ordinal_outcomes :: "string list"
  run_sensitivity :: bool
  seed :: int

record AnalysisSettings =
  variable_mapping :: VariableMapping
  data_processing :: DataProcessingSettings
  fdr_alpha :: real
  min_sample_size :: int
  generate_plots :: bool
  max_plots :: int

text \<open>
  The \<^verbatim>\<open>job_id\<close> of a request is read from a parsed object of type \<^verbatim>\<open>any\<close>; it is
  \<open>None\<close> when that object has no such property (\<^verbatim>\<open>undefined\<close>).
\<close>

record AnalysisRequest =
  job_id :: "string option"
  settings :: AnalysisSettings

record SimpleSlope =
  slope :: real
  p_value :: real
  ci_lower :: real
  ci_upper :: real
  cohens_d :: real

record InteractionResult =
  moderator :: string
  outcome :: string
  n_used :: int
  median :: real
  mean :: real
  std :: real
  beta_interaction :: real
  p_interaction :: real
  q_interaction :: real
  partial_eta2 :: real
  simple_slope_low :: SimpleSlope
  simple_slope_high :: SimpleSlope
  r_squared :: real
  adj_r_squared :: real

definition AnalysisStatus :: "string list" where
  "AnalysisStatus = [''pending'', ''running'', ''completed'', ''failed'']"

record AnalysisResult =
  job_id :: string
  status :: string
  created_at :: string
  completed_at :: "string option"
  results :: "InteractionResult list"
  result_notes :: "string list"
  logs :: string
  figures :: "string list"
  error_message :: "string option"

record JobStatus =
  job_id :: string
  status :: string
  progress :: real
  message :: string
  created_at :: string
  updated_at :: string

section \<open>Platform functions\<close>

text \<open>
  \<^verbatim>\<open>JSON.stringify\<close>, \<^verbatim>\<open>JSON.parse\<close>, \<^verbatim>\<open>encodeURIComponent\<close> and the browser's download
  of a data URI are not code of the pages. Each handler that calls one takes it as an
  argument; a parser returns \<open>Inl\<close> of the error it throws. \<^verbatim>\<open>localStorage\<close> is a map from
  keys to texts, and a test \<^verbatim>\<open>if (item)\<close> on what \<^verbatim>\<open>getItem\<close> returned fails both for a
  missing key (\<^verbatim>\<open>null\<close>) and for the empty text.
\<close>

datatype js_error = SyntaxError string | TypeError string

text \<open>\<^verbatim>\<open>error.message\<close>\<close>

fun error_message :: "js_error \<Rightarrow> string" where
  "error_message (SyntaxError m) = m"
| "error_message (TypeError m) = m"

definition getItem :: "(string \<rightharpoonup> string) \<Rightarrow> string \<Rightarrow> string option" where
  "getItem ls k = (case ls k of None \<Rightarrow> None | Some v \<Rightarrow> (if v = [] then None else Some v))"

section \<open>SettingsPage\<close>

text \<open>
  The state of the page: its two \<^verbatim>\<open>useState\<close> cells, and what its handlers reach
  outside it: \<^verbatim>\<open>localStorage\<close>, the toasts raised, the route \<^verbatim>\<open>navigate\<close> was last
  called with (\<open>None\<close> while the page stays), and the files offered for download as
  pairs of the link's \<^verbatim>\<open>download\<close> and \<^verbatim>\<open>href\<close> attributes.
\<close>

record settings_page =
  sp_uploadResult :: "UploadResponse option"
  sp_settings :: AnalysisSettings
  sp_localStorage :: "string \<rightharpoonup> string"
  sp_toasts :: "toast list"
  sp_route :: "string option"
  sp_downloads :: "(string \<times> string) list"

text \<open>The argument of \<^verbatim>\<open>useState<AnalysisSettings>\<close>.\<close>

definition initial_settings :: AnalysisSettings where
  "initial_settings =
     \<lparr> variable_mapping = \<lparr> moderators = [], outcomes = [], intervention = [] \<rparr>,
       data_processing =
         \<lparr> center_outcomes = False, center_moderators = True, ordinal_outcomes = [],
           run_sensitivity = False, seed = 123 \<rparr>,
       fdr_alpha = 0.05,
       min_sample_size = 30,
       generate_plots = True,
       max_plots = 20 \<rparr>"

text \<open>
  \<^verbatim>\<open>col.name.match(/^[B-F]$/)\<close>: without the \<^verbatim>\<open>m\<close> flag the pattern matches a name that
  is exactly one character between the two bounds.
\<close>

definition char_in_range :: "char \<Rightarrow> char \<Rightarrow> char \<Rightarrow> bool" where
  "char_in_range lo hi c \<longleftrightarrow>
     (of_char lo :: nat) \<le> of_char c \<and> (of_char c :: nat) \<le> of_char hi"

definition matches_B_F :: "string \<Rightarrow> bool" where
  "matches_B_F s = (case s of [c] \<Rightarrow> char_in_range CHR ''B'' CHR ''F'' c | _ \<Rightarrow> False)"

definition matches_G_R :: "string \<Rightarrow> bool" where
  "matches_G_R s = (case s of [c] \<Rightarrow> char_in_range CHR ''G'' CHR ''R'' c | _ \<Rightarrow> False)"

definition defaultModerators :: "ColumnInfo list \<Rightarrow> string list" where
  "defaultModerators cols = map name (filter (\<lambda>col. matches_B_F (name col)) cols)"

definition defaultOutcomes :: "ColumnInfo list \<Rightarrow> string list" where
  "defaultOutcomes cols = map name (filter (\<lambda>col. matches_G_R (name col)) cols)"

text \<open>\<^verbatim>\<open>result.columns.find(col => col.name === 'S')?.name || ''\<close>\<close>

definition defaultIntervention :: "ColumnInfo list \<Rightarrow> string" where
  "defaultIntervention cols =
     (case find (\<lambda>col. name col = ''S'') cols of
        None \<Rightarrow> []
      | Some col \<Rightarrow> (if name col = [] then [] else name col))"

definition default_variable_mapping :: "ColumnInfo list \<Rightarrow> VariableMapping" where
  "default_variable_mapping cols =
     \<lparr> moderators = defaultModerators cols,
       outcomes = defaultOutcomes cols,
       intervention = defaultIntervention cols \<rparr>"

text \<open>
  The effect that runs when the page is mounted. \<^verbatim>\<open>JSON.parse\<close> is not guarded here, so
  its error leaves the effect.
\<close>

definition SettingsPage_effect ::
  "(string \<Rightarrow> js_error + UploadResponse) \<Rightarrow> settings_page \<Rightarrow> js_error + settings_page" where
  "SettingsPage_effect parse_upload st =
     (case getItem (sp_localStorage st) ''uploadResult'' of
        None \<Rightarrow> Inr (st\<lparr>sp_route := Some ''/''\<rparr>)
      | Some savedResult \<Rightarrow>
          (case parse_upload savedResult of
             Inl e \<Rightarrow> Inl e
           | Inr result \<Rightarrow>
               Inr (st\<lparr>sp_uploadResult := Some result,
                        sp_settings := (sp_settings st)
                          \<lparr>variable_mapping := default_variable_mapping (columns result)\<rparr>\<rparr>)))"

definition handleSaveSettings :: "(AnalysisSettings \<Rightarrow> string) \<Rightarrow> settings_page \<Rightarrow> settings_page" where
  "handleSaveSettings stringify st =
     st\<lparr>sp_localStorage := (sp_localStorage st)(''analysisSettings'' \<mapsto> stringify (sp_settings st)),
        sp_toasts := sp_toasts st @ [ToastSuccess msg_settings_saved]\<rparr>"

definition handleLoadSettings ::
  "(string \<Rightarrow> js_error + AnalysisSettings) \<Rightarrow> settings_page \<Rightarrow> js_error + settings_page" where
  "handleLoadSettings parse st =
     (case getItem (sp_localStorage st) ''analysisSettings'' of
        Some savedSettings \<Rightarrow>
          (case parse savedSettings of
             Inl e \<Rightarrow> Inl e
           | Inr s \<Rightarrow>
               Inr (st\<lparr>sp_settings := s,
                        sp_toasts := sp_toasts st @ [ToastSuccess msg_settings_loaded]\<rparr>))
      | None \<Rightarrow> Inr (st\<lparr>sp_toasts := sp_toasts st @ [ToastError msg_settings_not_found]\<rparr>))"

text \<open>
  \<open>stringify_pretty\<close> is \<^verbatim>\<open>JSON.stringify(settings, null, 2)\<close>. The click on the link
  element hands the data URI to the browser under the file name.
\<close>

definition handleExportSettings ::
  "(AnalysisSettings \<Rightarrow> string) \<Rightarrow> (string \<Rightarrow> string) \<Rightarrow> settings_page \<Rightarrow> settings_page" where
  "handleExportSettings stringify_pretty encodeURIComponent st =
     (let dataStr = stringify_pretty (sp_settings st);
          dataUri = ''data:application/json;charset=utf-8,'' @ encodeURIComponent dataStr;
          exportFileDefaultName = ''analysis_settings.json''
      in st\<lparr>sp_downloads := sp_downloads st @ [(exportFileDefaultName, dataUri)]\<rparr>)"

text \<open>
  \<open>file\<close> is the text of \<^verbatim>\<open>event.target.files?.[0]\<close>, \<open>None\<close> when no file was chosen.
  The parse runs inside \<^verbatim>\<open>try\<close>, so its error becomes a toast.
\<close>

definition handleImportSettings ::
  "(string \<Rightarrow> js_error + AnalysisSettings) \<Rightarrow> string option \<Rightarrow> settings_page \<Rightarrow> settings_page" where
  "handleImportSettings parse file st =
     (case file of
        None \<Rightarrow> st
      | Some text \<Rightarrow>
          (case parse text of
             Inr importedSettings \<Rightarrow>
               st\<lparr>sp_settings := importedSettings,
                  sp_toasts := sp_toasts st @ [ToastSuccess msg_settings_imported]\<rparr>
           | Inl e \<Rightarrow>
               st\<lparr>sp_toasts := sp_toasts st @ [ToastError msg_settings_import_failed]\<rparr>))"

definition handleNext :: "(AnalysisSettings \<Rightarrow> string) \<Rightarrow> settings_page \<Rightarrow> settings_page" where
  "handleNext stringify st =
     (if moderators (variable_mapping (sp_settings st)) = [] then
        st\<lparr>sp_toasts := sp_toasts st @ [ToastError msg_select_moderator]\<rparr>
      else if outcomes (variable_mapping (sp_settings st)) = [] then
        st\<lparr>sp_toasts := sp_toasts st @ [ToastError msg_select_outcome]\<rparr>
      else if intervention (variable_mapping (sp_settings st)) = [] then
        st\<lparr>sp_toasts := sp_toasts st @ [ToastError msg_select_intervention]\<rparr>
      else
        st\<lparr>sp_localStorage :=
             (sp_localStorage st)(''analysisSettings'' \<mapsto> stringify (sp_settings st)),
           sp_route := Some ''/analysis''\<rparr>)"

text \<open>
  The text of the file the browser saved for the last download, given how the browser
  turns a data URI into a file (\<open>download_text\<close>).
\<close>

definition exported_file_text :: "(string \<Rightarrow> string) \<Rightarrow> settings_page \<Rightarrow> string option" where
  "exported_file_text download_text st =
     (if sp_downloads st = [] then None
      else Some (download_text (snd (last (sp_downloads st)))))"

section \<open>services/api.ts\<close>

text \<open>
  Each function of the API module sends one request through \<^verbatim>\<open>axios\<close> and returns the
  body of the answer. The request it sends is modelled; the answer arrives later as an
  event of the page that called.
\<close>

datatype http_request = HttpPost string "AnalysisRequest option" | HttpGet string

definition runAnalysis :: "AnalysisRequest \<Rightarrow> http_request" where
  "runAnalysis request = HttpPost ''/api/run'' (Some request)"

definition getJobStatus :: "string \<Rightarrow> http_request" where
  "getJobStatus jobId = HttpGet (''/api/run/'' @ jobId @ ''/status'')"

definition cancelJob :: "string \<Rightarrow> http_request" where
  "cancelJob jobId = HttpPost (''/api/run/'' @ jobId @ ''/cancel'') None"

section \<open>AnalysisPage\<close>

text \<open>
  The four \<^verbatim>\<open>useState\<close> cells of the page, what its handlers reach outside it, the
  requests sent so far, and for each of the three awaited calls the number of requests
  whose answer has not arrived yet. An \<^verbatim>\<open>async\<close> handler is two steps: the part before
  \<^verbatim>\<open>await\<close>, which sends the request, and the part after it, which runs when the answer
  arrives and is either the continuation (\<open>_resolved\<close>) or the \<^verbatim>\<open>catch\<close> block
  (\<open>_rejected\<close>). Other steps of the page can run between the two.
\<close>

record analysis_page =
  ap_settings :: "AnalysisSettings option"
  ap_jobStatus :: "JobStatus option"
  ap_isRunning :: bool
  ap_progress :: real
  ap_localStorage :: "string \<rightharpoonup> string"
  ap_toasts :: "toast list"
  ap_route :: "string option"
  ap_requests :: "http_request list"
  ap_runs_in_flight :: nat
  ap_polls_in_flight :: nat
  ap_cancels_in_flight :: nat

definition getStatusText :: "string \<Rightarrow> string" where
  "getStatusText status_value =
     (if status_value = ''pending'' then txt_pending
      else if status_value = ''running'' then txt_running
      else if status_value = ''completed'' then txt_completed
      else if status_value = ''failed'' then txt_failed
      else txt_unknown)"

text \<open>\<^verbatim>\<open>jobStatus?.job_id\<close> where the source tests it for truth.\<close>

definition current_job_id :: "analysis_page \<Rightarrow> string option" where
  "current_job_id st =
     (case ap_jobStatus st of
        None \<Rightarrow> None
      | Some js \<Rightarrow> (if JobStatus.job_id js = [] then None else Some (JobStatus.job_id js)))"

text \<open>
  The two platform operations the page relies on, taken as they are and with nothing
  assumed about them.
  \<^item> \<open>json_job_id text\<close> is \<^verbatim>\<open>JSON.parse(text).job_id\<close>. The parsed value is untyped:
    the result is \<open>Inr None\<close> when it has no \<^verbatim>\<open>job_id\<close> (\<^verbatim>\<open>undefined\<close>), and \<open>Inl\<close>
    of the error when the parse throws or the property is read off \<^verbatim>\<open>null\<close>.
  \<^item> \<open>double_times x y\<close> is the product \<^verbatim>\<open>x * y\<close> of two doubles, which is the real
    product rounded to the nearest double.
\<close>

record platform =
  json_job_id :: "string \<Rightarrow> js_error + string option"
  double_times :: "real \<Rightarrow> real \<Rightarrow> real"

text \<open>
  \<^verbatim>\<open>JSON.parse(localStorage.getItem('uploadResult') || '{}').job_id\<close>: when nothing is
  stored, the text that is parsed is \<^verbatim>\<open>{}\<close>.
\<close>

definition upload_job_id :: "platform \<Rightarrow> (string \<rightharpoonup> string) \<Rightarrow> js_error + string option" where
  "upload_job_id P ls =
     json_job_id P (case getItem ls ''uploadResult'' of None \<Rightarrow> ''{}'' | Some stored \<Rightarrow> stored)"

definition handleStartAnalysis :: "platform \<Rightarrow> analysis_page \<Rightarrow> analysis_page" where
  "handleStartAnalysis P st =
     (case ap_settings st of
        None \<Rightarrow> st
      | Some s \<Rightarrow>
          (case upload_job_id P (ap_localStorage st) of
             Inr jid \<Rightarrow>
               st\<lparr>ap_isRunning := True, ap_progress := 0,
                  ap_requests := ap_requests st
                    @ [runAnalysis \<lparr> AnalysisRequest.job_id = jid, settings = s \<rparr>],
                  ap_runs_in_flight := Suc (ap_runs_in_flight st)\<rparr>
           | Inl error \<Rightarrow>
               st\<lparr>ap_isRunning := False, ap_progress := 0,
                  ap_toasts := ap_toasts st
                    @ [ToastError (msg_start_error_prefix @ error_message error)]\<rparr>))"

definition runAnalysis_resolved :: "JobStatus \<Rightarrow> analysis_page \<Rightarrow> analysis_page" where
  "runAnalysis_resolved result st =
     (if ap_runs_in_flight st = 0 then st
      else st\<lparr>ap_runs_in_flight := ap_runs_in_flight st - 1,
              ap_jobStatus := Some result,
              ap_toasts := ap_toasts st @ [ToastSuccess msg_analysis_started]\<rparr>)"

definition runAnalysis_rejected :: "string \<Rightarrow> analysis_page \<Rightarrow> analysis_page" where
  "runAnalysis_rejected detail st =
     (if ap_runs_in_flight st = 0 then st
      else st\<lparr>ap_runs_in_flight := ap_runs_in_flight st - 1,
              ap_isRunning := False,
              ap_toasts := ap_toasts st @ [ToastError (msg_start_error_prefix @ detail)]\<rparr>)"

text \<open>
  The polling effect keeps an interval exactly while \<^verbatim>\<open>isRunning && jobStatus?.job_id\<close>
  holds; its clean-up clears the interval whenever one of the two changes. So a tick of
  the timer runs the callback in such a state only, and the callback asks for the status
  of the current job.
\<close>

definition interval_tick :: "analysis_page \<Rightarrow> analysis_page" where
  "interval_tick st =
     (if ap_isRunning st then
        (case current_job_id st of
           None \<Rightarrow> st
         | Some jobId \<Rightarrow>
             st\<lparr>ap_requests := ap_requests st @ [getJobStatus jobId],
                ap_polls_in_flight := Suc (ap_polls_in_flight st)\<rparr>)
      else st)"

definition getJobStatus_resolved :: "platform \<Rightarrow> JobStatus \<Rightarrow> analysis_page \<Rightarrow> analysis_page" where
  "getJobStatus_resolved P response st =
     (if ap_polls_in_flight st = 0 then st
      else
        (let st1 = st\<lparr>ap_polls_in_flight := ap_polls_in_flight st - 1,
                       ap_jobStatus := Some response,
                       ap_progress := double_times P (JobStatus.progress response) 100\<rparr>
         in if JobStatus.status response = ''completed'' then
              st1\<lparr>ap_isRunning := False,
                  ap_toasts := ap_toasts st1 @ [ToastSuccess msg_analysis_completed],
                  ap_route := Some ''/results''\<rparr>
            else if JobStatus.status response = ''failed'' then
              st1\<lparr>ap_isRunning := False,
                  ap_toasts := ap_toasts st1 @ [ToastError msg_analysis_failed]\<rparr>
            else st1))"

definition getJobStatus_rejected :: "analysis_page \<Rightarrow> analysis_page" where
  "getJobStatus_rejected st =
     (if ap_polls_in_flight st = 0 then st
      else st\<lparr>ap_polls_in_flight := ap_polls_in_flight st - 1\<rparr>)"

definition handleCancelAnalysis :: "analysis_page \<Rightarrow> analysis_page" where
  "handleCancelAnalysis st =
     (case current_job_id st of
        None \<Rightarrow> st
      | Some jobId \<Rightarrow>
          st\<lparr>ap_requests := ap_requests st @ [cancelJob jobId],
             ap_cancels_in_flight := Suc (ap_cancels_in_flight st)\<rparr>)"

definition cancelJob_resolved :: "analysis_page \<Rightarrow> analysis_page" where
  "cancelJob_resolved st =
     (if ap_cancels_in_flight st = 0 then st
      else st\<lparr>ap_cancels_in_flight := ap_cancels_in_flight st - 1,
              ap_isRunning := False,
              ap_toasts := ap_toasts st @ [ToastSuccess msg_cancelled]\<rparr>)"

definition cancelJob_rejected :: "string \<Rightarrow> analysis_page \<Rightarrow> analysis_page" where
  "cancelJob_rejected detail st =
     (if ap_cancels_in_flight st = 0 then st
      else st\<lparr>ap_cancels_in_flight := ap_cancels_in_flight st - 1,
              ap_toasts := ap_toasts st @ [ToastError (msg_cancel_error_prefix @ detail)]\<rparr>)"

definition handleReset :: "analysis_page \<Rightarrow> analysis_page" where
  "handleReset st = st\<lparr>ap_jobStatus := None, ap_isRunning := False, ap_progress := 0\<rparr>"

text \<open>
  Everything that can happen to the mounted page: the three buttons, a tick of the timer,
  and the arrival of an answer, good or bad, to a request in flight. An answer to a
  request that was never sent cannot arrive; such an event leaves the state as it is.
\<close>

datatype event =
    StartClicked
  | RunResolved JobStatus
  | RunRejected string
  | Tick
  | StatusResolved JobStatus
  | StatusRejected
  | CancelClicked
  | CancelResolved
  | CancelRejected string
  | ResetClicked

fun step :: "platform \<Rightarrow> event \<Rightarrow> analysis_page \<Rightarrow> analysis_page" where
  "step P StartClicked st = handleStartAnalysis P st"
| "step P (RunResolved result) st = runAnalysis_resolved result st"
| "step P (RunRejected detail) st = runAnalysis_rejected detail st"
| "step P Tick st = interval_tick st"
| "step P (StatusResolved response) st = getJobStatus_resolved P response st"
| "step P StatusRejected st = getJobStatus_rejected st"
| "step P CancelClicked st = handleCancelAnalysis st"
| "step P CancelResolved st = cancelJob_resolved st"
| "step P (CancelRejected detail) st = cancelJob_rejected detail st"
| "step P ResetClicked st = handleReset st"

fun run :: "platform \<Rightarrow> event list \<Rightarrow> analysis_page \<Rightarrow> analysis_page" where
  "run P [] st = st"
| "run P (ev # evs) st = run P evs (step P ev st)"

text \<open>The two buttons with which the user starts over.\<close>

fun restarts :: "event \<Rightarrow> bool" where
  "restarts StartClicked = True"
| "restarts ResetClicked = True"
| "restarts _ = False"

fun is_status_request :: "http_request \<Rightarrow> bool" where
  "is_status_request (HttpGet url) = True"
| "is_status_request (HttpPost url body) = False"

text \<open>The status the page holds for its job, the one it renders through \<open>getStatusText\<close>.\<close>

definition shown_status :: "analysis_page \<Rightarrow> string option" where
  "shown_status st = map_option JobStatus.status (ap_jobStatus st)"

text \<open>No request to start a job or to read its status is under way and the timer is off.\<close>

definition quiescent :: "analysis_page \<Rightarrow> bool" where
  "quiescent st \<longleftrightarrow>
     \<not> ap_isRunning st \<and> ap_polls_in_flight st = 0 \<and> ap_runs_in_flight st = 0"

text \<open>
  The number of tests the page announces (\<^verbatim>\<open>moderators.length * outcomes.length\<close>).
  Array lengths are natural numbers, and the product of two of them is exact in double
  arithmetic as long as it is below \<open>2^53\<close>.
\<close>

definition total_tests :: "AnalysisSettings \<Rightarrow> nat" where
  "total_tests s =
     length (moderators (variable_mapping s)) * length (outcomes (variable_mapping s))"

section \<open>ResultsPage\<close>

record filter_state =
  significant :: bool
  moderator :: string
  outcome :: string

record results_page =
  rp_result :: "AnalysisResult option"
  rp_filteredResults :: "InteractionResult list"
  rp_filter :: filter_state

definition initial_filter :: filter_state where
  "initial_filter = \<lparr> significant = False, moderator = [], outcome = [] \<rparr>"

definition applyFilters :: "results_page \<Rightarrow> results_page" where
  "applyFilters st =
     (case rp_result st of
        None \<Rightarrow> st
      | Some result \<Rightarrow>
          (let filtered = results result;
               filtered =
                 (if significant (rp_filter st)
                  then filter (\<lambda>r. q_interaction r < 0.05) filtered else filtered);
               filtered =
                 (if filter_state.moderator (rp_filter st) \<noteq> []
                  then filter (\<lambda>r. InteractionResult.moderator r
                                      = filter_state.moderator (rp_filter st)) filtered
                  else filtered);
               filtered =
                 (if filter_state.outcome (rp_filter st) \<noteq> []
                  then filter (\<lambda>r. InteractionResult.outcome r
                                      = filter_state.outcome (rp_filter st)) filtered
                  else filtered)
           in st\<lparr>rp_filteredResults := filtered\<rparr>))"

text \<open>
  The effect with dependencies \<^verbatim>\<open>[result, filter]\<close> runs \<open>applyFilters\<close> after every
  change of the filter, once a result is loaded.
\<close>

definition filter_effect :: "results_page \<Rightarrow> results_page" where
  "filter_effect st = (case rp_result st of None \<Rightarrow> st | Some _ \<Rightarrow> applyFilters st)"

definition setFilter :: "filter_state \<Rightarrow> results_page \<Rightarrow> results_page" where
  "setFilter f st = filter_effect (st\<lparr>rp_filter := f\<rparr>)"

text \<open>The reset button of the filter card.\<close>

definition reset_button :: "results_page \<Rightarrow> results_page" where
  "reset_button st = setFilter \<lparr> significant = False, moderator = [], outcome = [] \<rparr> st"

definition getSignificanceColor :: "real \<Rightarrow> string" where
  "getSignificanceColor qValue =
     (if qValue < 0.001 then ''text-red-600 font-bold''
      else if qValue < 0.01 then ''text-red-500 font-semibold''
      else if qValue < 0.05 then ''text-orange-500 font-medium''
      else ''text-gray-500'')"

definition getSignificanceText :: "real \<Rightarrow> string" where
  "getSignificanceText qValue =
     (if qValue < 0.001 then ''***''
      else if qValue < 0.01 then ''**''
      else if qValue < 0.05 then ''*''
      else ''ns'')"

definition significantResults :: "AnalysisResult \<Rightarrow> InteractionResult list" where
  "significantResults result = filter (\<lambda>r. q_interaction r < 0.05) (results result)"

text \<open>The \<^verbatim>\<open>className\<close> of a row of the result table.\<close>

definition row_className :: "InteractionResult \<Rightarrow> string" where
  "row_className row = (if q_interaction row < 0.05 then ''bg-green-50'' else [])"

section \<open>What the specification asks\<close>

text \<open>
  The invariant of a variable mapping in the words of the specification: the three roles
  are pairwise disjoint.
\<close>

definition roles_pairwise_disjoint :: "VariableMapping \<Rightarrow> bool" where
  "roles_pairwise_disjoint vm \<longleftrightarrow>
     set (moderators vm) \<inter> set (outcomes vm) = {}
     \<and> intervention vm \<notin> set (moderators vm)
     \<and> intervention vm \<notin> set (outcomes vm)"

text \<open>
  Settings without a configuration error in the words of the specification: every role
  is filled, the roles are disjoint, and the three numbers lie in their declared ranges.
\<close>

definition spec_no_configuration_error :: "AnalysisSettings \<Rightarrow> bool" where
  "spec_no_configuration_error s \<longleftrightarrow>
     moderators (variable_mapping s) \<noteq> []
     \<and> outcomes (variable_mapping s) \<noteq> []
     \<and> intervention (variable_mapping s) \<noteq> []
     \<and> roles_pairwise_disjoint (variable_mapping s)
     \<and> 0 < fdr_alpha s \<and> fdr_alpha s \<le> 0.5
     \<and> 1 \<le> min_sample_size s
     \<and> 0 \<le> max_plots s"

text \<open>The pairs the batch is specified to test, one per moderator and outcome.\<close>

definition tested_pairs :: "VariableMapping \<Rightarrow> (string \<times> string) list" where
  "tested_pairs vm = List.product (moderators vm) (outcomes vm)"

text \<open>
  The conjunction of the predicates a filter state enables; a text filter is enabled when
  it is not empty.
\<close>

definition enabled_predicates :: "filter_state \<Rightarrow> InteractionResult \<Rightarrow> bool" where
  "enabled_predicates f r \<longleftrightarrow>
     (significant f \<longrightarrow> q_interaction r < 0.05)
     \<and> (filter_state.moderator f \<noteq> [] \<longrightarrow> InteractionResult.moderator r = filter_state.moderator f)
     \<and> (filter_state.outcome f \<noteq> [] \<longrightarrow> InteractionResult.outcome r = filter_state.outcome f)"

section \<open>Concrete inputs\<close>

definition column :: "string \<Rightarrow> ColumnInfo" where
  "column n =
     \<lparr> name = n, data_type = ''numeric'', unique_count = 5, missing_count = 0,
       missing_rate = 0 \<rparr>"

definition sample_upload :: UploadResponse where
  "sample_upload =
     \<lparr> UploadResponse.job_id = ''job-1'', filename = ''data.csv'',
       columns = map column [''A'', ''B'', ''C'', ''G'', ''S''],
       UploadResponse.message = [] \<rparr>"

definition sample_settings :: AnalysisSettings where
  "sample_settings =
     initial_settings
       \<lparr> variable_mapping := \<lparr> moderators = [''B''], outcomes = [''G''], intervention = ''S'' \<rparr> \<rparr>"

text \<open>One column in all three roles, and every number outside its range.\<close>

definition overlapping_settings :: AnalysisSettings where
  "overlapping_settings =
     initial_settings
       \<lparr> variable_mapping := \<lparr> moderators = [''B''], outcomes = [''B''], intervention = ''B'' \<rparr>,
         fdr_alpha := 5, min_sample_size := 0, max_plots := -1 \<rparr>"

definition fresh_settings_page :: "AnalysisSettings \<Rightarrow> settings_page" where
  "fresh_settings_page s =
     \<lparr> sp_uploadResult = None, sp_settings = s, sp_localStorage = Map.empty,
       sp_toasts = [], sp_route = None, sp_downloads = [] \<rparr>"

definition example_result :: "string \<Rightarrow> string \<Rightarrow> real \<Rightarrow> InteractionResult" where
  "example_result m out q =
     \<lparr> InteractionResult.moderator = m, InteractionResult.outcome = out, n_used = 45,
       median = 0, mean = 0, std = 1,
       beta_interaction = 0, p_interaction = q, q_interaction = q, partial_eta2 = 0,
       simple_slope_low = \<lparr> slope = 0, p_value = 1, ci_lower = 0, ci_upper = 0, cohens_d = 0 \<rparr>,
       simple_slope_high = \<lparr> slope = 0, p_value = 1, ci_lower = 0, ci_upper = 0, cohens_d = 0 \<rparr>,
       r_squared = 0, adj_r_squared = 0 \<rparr>"

definition example_analysis :: "InteractionResult list \<Rightarrow> AnalysisResult" where
  "example_analysis rs =
     \<lparr> AnalysisResult.job_id = ''job-1'', AnalysisResult.status = ''completed'',
       AnalysisResult.created_at = [],
       completed_at = None, results = rs, result_notes = [], logs = [], figures = [],
       error_message = None \<rparr>"

definition example_job :: "string \<Rightarrow> real \<Rightarrow> JobStatus" where
  "example_job status_value p =
     \<lparr> JobStatus.job_id = ''job-1'', JobStatus.status = status_value, progress = p,
       JobStatus.message = [], JobStatus.created_at = [], updated_at = [] \<rparr>"

text \<open>The page while its job runs: two of ten pairs are done and nothing is in flight.\<close>

definition running_page :: analysis_page where
  "running_page =
     \<lparr> ap_settings = Some sample_settings,
       ap_jobStatus = Some (example_job ''running'' 0.2),
       ap_isRunning = True,
       ap_progress = 20,
       ap_localStorage = [''uploadResult'' \<mapsto> ''u''],
       ap_toasts = [],
       ap_route = None,
       ap_requests = [],
       ap_runs_in_flight = 0,
       ap_polls_in_flight = 0,
       ap_cancels_in_flight = 0 \<rparr>"

definition parse_sample_upload :: "string \<Rightarrow> js_error + UploadResponse" where
  "parse_sample_upload text = (if text = ''u'' then Inr sample_upload else Inl (SyntaxError []))"

text \<open>
  A platform for the concrete runs: the stored text \<^verbatim>\<open>u\<close> stands for the upload result
  of job \<^verbatim>\<open>job-1\<close>, the empty object has no \<^verbatim>\<open>job_id\<close>, anything else does not parse;
  the product is the real one, exact on the doubles used below (\<open>0.5 * 100\<close>).
\<close>

definition sample_job_id :: "string \<Rightarrow> js_error + string option" where
  "sample_job_id stored =
     (if stored = ''u'' then Inr (Some ''job-1'')
      else if stored = ''{}'' then Inr None
      else Inl (SyntaxError []))"

definition sample_platform :: platform where
  "sample_platform = \<lparr> json_job_id = sample_job_id, double_times = (\<lambda>x y. x * y) \<rparr>"

text \<open>
  The page before a submission, with the settings loaded from the store and no upload
  result stored.
\<close>

definition page_without_upload :: analysis_page where
  "page_without_upload =
     \<lparr> ap_settings = Some sample_settings,
       ap_jobStatus = None,
       ap_isRunning = False,
       ap_progress = 0,
       ap_localStorage = [''analysisSettings'' \<mapsto> ''s''],
       ap_toasts = [],
       ap_route = None,
       ap_requests = [],
       ap_runs_in_flight = 0,
       ap_polls_in_flight = 0,
       ap_cancels_in_flight = 0 \<rparr>"

definition parse_sample_settings :: "string \<Rightarrow> js_error + AnalysisSettings" where
  "parse_sample_settings text =
     (if text = ''s'' \<or> text = ''p'' then Inr sample_settings else Inl (SyntaxError []))"

section \<open>Properties of the settings page\<close>

subsection \<open>Initial settings\<close>

text \<open>
  C6. The settings the settings page starts from lie inside every range the data model
  declares: \<open>fdr_alpha\<close> is in \<open>(0, 0.5]\<close>, \<open>min_sample_size\<close> is at least 1 and
  \<open>max_plots\<close> is at least 0; the three values are 0.05, 30 and 20.
\<close>

theorem initial_settings_in_range:
  "0 < fdr_alpha initial_settings \<and> fdr_alpha initial_settings \<le> 0.5
   \<and> 1 \<le> min_sample_size initial_settings
   \<and> 0 \<le> max_plots initial_settings
   \<and> fdr_alpha initial_settings = 0.05
   \<and> min_sample_size initial_settings = 30
   \<and> max_plots initial_settings = 20"
  by (simp add: initial_settings_def)

subsection \<open>Default variable mapping\<close>

lemma defaultModerators_match: "s \<in> set (defaultModerators cols) \<Longrightarrow> matches_B_F s"
  by (auto simp: defaultModerators_def)

lemma defaultOutcomes_match: "s \<in> set (defaultOutcomes cols) \<Longrightarrow> matches_G_R s"
  by (auto simp: defaultOutcomes_def)

lemma B_F_not_G_R: "matches_B_F s \<Longrightarrow> \<not> matches_G_R s"
  by (auto simp: matches_B_F_def matches_G_R_def char_in_range_def split: list.splits)

lemma defaultIntervention_cases:
  "defaultIntervention cols = [] \<or> defaultIntervention cols = ''S''"
  by (auto simp: defaultIntervention_def find_Some_iff split: option.splits)

lemma defaultIntervention_no_match:
  "\<not> matches_B_F (defaultIntervention cols)" "\<not> matches_G_R (defaultIntervention cols)"
  using defaultIntervention_cases [of cols]
  by (auto simp: matches_B_F_def matches_G_R_def char_in_range_def)

lemma default_variable_mapping_disjoint:
  "roles_pairwise_disjoint (default_variable_mapping cols)"
proof -
  have "set (defaultModerators cols) \<inter> set (defaultOutcomes cols) = {}"
    using defaultModerators_match defaultOutcomes_match B_F_not_G_R by blast
  moreover have "defaultIntervention cols \<notin> set (defaultModerators cols)"
    using defaultModerators_match defaultIntervention_no_match(1) by blast
  moreover have "defaultIntervention cols \<notin> set (defaultOutcomes cols)"
    using defaultOutcomes_match defaultIntervention_no_match(2) by blast
  ultimately show ?thesis
    by (simp add: roles_pairwise_disjoint_def default_variable_mapping_def)
qed

text \<open>
  C5. For every list of uploaded columns the default variable mapping (moderators the
  columns named B to F, outcomes the columns named G to R, intervention the column S if
  there is one) has pairwise disjoint roles; and when the page is mounted with a stored
  upload result, that mapping is the one the effect puts into the settings.
\<close>

theorem default_mapping_disjoint:
  "roles_pairwise_disjoint (default_variable_mapping cols)
   \<and> (getItem (sp_localStorage st) ''uploadResult'' = Some savedResult
        \<and> parse_upload savedResult = Inr result
      \<longrightarrow> (\<exists>st'. SettingsPage_effect parse_upload st = Inr st'
             \<and> variable_mapping (sp_settings st') = default_variable_mapping (columns result)
             \<and> roles_pairwise_disjoint (variable_mapping (sp_settings st'))))"
  by (simp add: default_variable_mapping_disjoint SettingsPage_effect_def)

theorem default_mapping_disjoint_witness:
  "getItem (sp_localStorage ((fresh_settings_page initial_settings)
       \<lparr>sp_localStorage := [''uploadResult'' \<mapsto> ''u'']\<rparr>)) ''uploadResult'' = Some ''u''
   \<and> parse_sample_upload ''u'' = Inr sample_upload
   \<and> default_variable_mapping (columns sample_upload)
       = \<lparr> moderators = [''B'', ''C''], outcomes = [''G''], intervention = ''S'' \<rparr>
   \<and> roles_pairwise_disjoint (default_variable_mapping (columns sample_upload))
   \<and> (\<exists>st'. SettingsPage_effect parse_sample_upload
               ((fresh_settings_page initial_settings)
                  \<lparr>sp_localStorage := [''uploadResult'' \<mapsto> ''u'']\<rparr>) = Inr st'
          \<and> variable_mapping (sp_settings st')
              = \<lparr> moderators = [''B'', ''C''], outcomes = [''G''], intervention = ''S'' \<rparr>)"
proof -
  let ?st = "(fresh_settings_page initial_settings)
       \<lparr>sp_localStorage := [''uploadResult'' \<mapsto> ''u'']\<rparr>"
  have item: "getItem (sp_localStorage ?st) ''uploadResult'' = Some ''u''"
    by (simp add: getItem_def)
  have parsed: "parse_sample_upload ''u'' = Inr sample_upload"
    by (simp add: parse_sample_upload_def)
  have mapping: "default_variable_mapping (columns sample_upload)
       = \<lparr> moderators = [''B'', ''C''], outcomes = [''G''], intervention = ''S'' \<rparr>"
    by (simp add: default_variable_mapping_def defaultModerators_def defaultOutcomes_def
        defaultIntervention_def sample_upload_def column_def matches_B_F_def matches_G_R_def
        char_in_range_def)
  from default_mapping_disjoint [of "columns sample_upload" ?st "''u''" parse_sample_upload
      sample_upload] item parsed mapping
  show ?thesis by auto
qed

subsection \<open>Number of tests\<close>

text \<open>
  C7. For a variable mapping with \<open>m\<close> moderators and \<open>k\<close> outcomes the total number of
  tests the analysis page reports is \<open>m * k\<close>, the number of (moderator, outcome) pairs.
\<close>

theorem total_tests_product:
  assumes "length (moderators (variable_mapping s)) = m"
    and "length (outcomes (variable_mapping s)) = k"
  shows "total_tests s = m * k \<and> total_tests s = length (tested_pairs (variable_mapping s))"
  using assms by (simp add: total_tests_def tested_pairs_def)

theorem total_tests_product_witness:
  "length (moderators (variable_mapping
       (initial_settings\<lparr>variable_mapping := default_variable_mapping (columns sample_upload)\<rparr>)))
     = 2
   \<and> length (outcomes (variable_mapping
       (initial_settings\<lparr>variable_mapping := default_variable_mapping (columns sample_upload)\<rparr>)))
     = 1
   \<and> total_tests
       (initial_settings\<lparr>variable_mapping := default_variable_mapping (columns sample_upload)\<rparr>)
     = 2 * 1
   \<and> tested_pairs (default_variable_mapping (columns sample_upload))
     = [(''B'', ''G''), (''C'', ''G'')]"
proof -
  let ?s = "initial_settings
       \<lparr>variable_mapping := default_variable_mapping (columns sample_upload)\<rparr>"
  have mapping: "default_variable_mapping (columns sample_upload)
       = \<lparr> moderators = [''B'', ''C''], outcomes = [''G''], intervention = ''S'' \<rparr>"
    by (simp add: default_variable_mapping_def defaultModerators_def defaultOutcomes_def
        defaultIntervention_def sample_upload_def column_def matches_B_F_def matches_G_R_def
        char_in_range_def)
  have m: "length (moderators (variable_mapping ?s)) = 2"
    and k: "length (outcomes (variable_mapping ?s)) = 1"
    by (simp_all add: mapping)
  have pairs: "tested_pairs (default_variable_mapping (columns sample_upload))
      = [(''B'', ''G''), (''C'', ''G'')]"
    by (simp add: mapping tested_pairs_def)
  from total_tests_product [OF m k] m k pairs show ?thesis by simp
qed

subsection \<open>Validation before the analysis page\<close>

text \<open>
  C3 as stated asks that \<open>handleNext\<close> proceeds only for settings without any
  configuration error. It does proceed for settings that name one column in all three
  roles and carry numbers outside every declared range: the handler never looks at
  overlap or ranges.
\<close>

theorem handleNext_accepts_overlap:
  "sp_route (fresh_settings_page overlapping_settings) = None
   \<and> sp_route (handleNext (\<lambda>s. ''{}'') (fresh_settings_page overlapping_settings))
       = Some ''/analysis''
   \<and> \<not> spec_no_configuration_error overlapping_settings
   \<and> \<not> roles_pairwise_disjoint (variable_mapping overlapping_settings)
   \<and> \<not> fdr_alpha overlapping_settings \<le> 0.5
   \<and> \<not> 1 \<le> min_sample_size overlapping_settings
   \<and> \<not> 0 \<le> max_plots overlapping_settings"
  by (simp add: handleNext_def fresh_settings_page_def overlapping_settings_def
      spec_no_configuration_error_def roles_pairwise_disjoint_def initial_settings_def)

text \<open>
  C3, amended. \<open>handleNext\<close> proceeds to the analysis page exactly when at least one
  moderator, at least one outcome and an intervention are selected. When it proceeds it
  stores the settings under \<^verbatim>\<open>analysisSettings\<close> and raises no toast; otherwise it
  returns at once with one error toast, without navigating and without touching the
  store.
\<close>

theorem handleNext_checks:
  assumes "sp_route st = None"
  shows "(sp_route (handleNext stringify st) = Some ''/analysis'' \<longleftrightarrow>
            moderators (variable_mapping (sp_settings st)) \<noteq> []
            \<and> outcomes (variable_mapping (sp_settings st)) \<noteq> []
            \<and> intervention (variable_mapping (sp_settings st)) \<noteq> [])
         \<and> (if sp_route (handleNext stringify st) = Some ''/analysis''
            then sp_localStorage (handleNext stringify st) ''analysisSettings''
                   = Some (stringify (sp_settings st))
                 \<and> sp_toasts (handleNext stringify st) = sp_toasts st
            else sp_route (handleNext stringify st) = None
                 \<and> sp_localStorage (handleNext stringify st) = sp_localStorage st
                 \<and> (\<exists>m. sp_toasts (handleNext stringify st) = sp_toasts st @ [ToastError m]))"
  using assms by (simp add: handleNext_def)

theorem handleNext_checks_witness:
  "sp_route (fresh_settings_page sample_settings) = None
   \<and> sp_route (handleNext (\<lambda>s. ''{}'') (fresh_settings_page sample_settings)) = Some ''/analysis''
   \<and> sp_localStorage (handleNext (\<lambda>s. ''{}'') (fresh_settings_page sample_settings))
        ''analysisSettings'' = Some ''{}''"
proof -
  let ?st = "fresh_settings_page sample_settings"
  have route: "sp_route ?st = None"
    by (simp add: fresh_settings_page_def)
  have roles: "moderators (variable_mapping (sp_settings ?st)) \<noteq> []"
    "outcomes (variable_mapping (sp_settings ?st)) \<noteq> []"
    "intervention (variable_mapping (sp_settings ?st)) \<noteq> []"
    by (simp_all add: fresh_settings_page_def sample_settings_def)
  from handleNext_checks [OF route, of "\<lambda>s. ''{}''"] roles route show ?thesis
    by simp
qed

subsection \<open>Saving and loading settings\<close>

lemma getItem_upd_same: "v \<noteq> [] \<Longrightarrow> getItem (ls(k \<mapsto> v)) k = Some v"
  by (simp add: getItem_def)

text \<open>
  C9. Take settings that survive JSON serialization: parsing what \<^verbatim>\<open>JSON.stringify\<close>
  wrote gives them back, in the compact and in the indented form. (What is written for an
  object is never the empty text, and the file the browser saves for the data URI holds
  the text that was encoded into it.) Then saving and, after any edit of the settings,
  loading restores the saved settings; and exporting and, after any edit, importing the
  exported file restores the exported settings.
\<close>

theorem settings_round_trip:
  assumes json: "parse (stringify (sp_settings st)) = Inr (sp_settings st)"
    and nonempty: "stringify (sp_settings st) \<noteq> []"
    and json_pretty: "parse (stringify_pretty (sp_settings st)) = Inr (sp_settings st)"
    and download:
      "download_text (''data:application/json;charset=utf-8,''
          @ encodeURIComponent (stringify_pretty (sp_settings st)))
        = stringify_pretty (sp_settings st)"
  shows "map_sum id sp_settings
           (handleLoadSettings parse ((handleSaveSettings stringify st)\<lparr>sp_settings := edited\<rparr>))
         = Inr (sp_settings st)
       \<and> sp_settings
           (handleImportSettings parse
              (exported_file_text download_text
                 (handleExportSettings stringify_pretty encodeURIComponent st))
              (st\<lparr>sp_settings := edited\<rparr>))
         = sp_settings st"
proof -
  let ?saved = "(handleSaveSettings stringify st)\<lparr>sp_settings := edited\<rparr>"
  have "getItem (sp_localStorage ?saved) ''analysisSettings'' = Some (stringify (sp_settings st))"
    using nonempty by (simp add: handleSaveSettings_def getItem_upd_same)
  then have load: "map_sum id sp_settings (handleLoadSettings parse ?saved) = Inr (sp_settings st)"
    using json by (simp add: handleLoadSettings_def)
  have "exported_file_text download_text
          (handleExportSettings stringify_pretty encodeURIComponent st)
        = Some (stringify_pretty (sp_settings st))"
    using download by (simp add: exported_file_text_def handleExportSettings_def Let_def)
  then have "sp_settings
           (handleImportSettings parse
              (exported_file_text download_text
                 (handleExportSettings stringify_pretty encodeURIComponent st))
              (st\<lparr>sp_settings := edited\<rparr>))
         = sp_settings st"
    using json_pretty by (simp add: handleImportSettings_def)
  with load show ?thesis by simp
qed

theorem settings_round_trip_witness:
  "map_sum id sp_settings
     (handleLoadSettings parse_sample_settings
        ((handleSaveSettings (\<lambda>s. ''s'') (fresh_settings_page sample_settings))
           \<lparr>sp_settings := initial_settings\<rparr>))
     = Inr sample_settings
   \<and> sp_settings
       (handleImportSettings parse_sample_settings
          (exported_file_text (drop 36)
             (handleExportSettings (\<lambda>s. ''p'') (\<lambda>t. t) (fresh_settings_page sample_settings)))
          ((fresh_settings_page sample_settings)\<lparr>sp_settings := initial_settings\<rparr>))
     = sample_settings"
proof -
  let ?st = "fresh_settings_page sample_settings"
  have s: "sp_settings ?st = sample_settings"
    by (simp add: fresh_settings_page_def)
  have h1: "parse_sample_settings ((\<lambda>s. ''s'') (sp_settings ?st)) = Inr (sp_settings ?st)"
    by (simp add: s parse_sample_settings_def)
  have h2: "(\<lambda>s. ''s'') (sp_settings ?st) \<noteq> []"
    by simp
  have h3: "parse_sample_settings ((\<lambda>s. ''p'') (sp_settings ?st)) = Inr (sp_settings ?st)"
    by (simp add: s parse_sample_settings_def)
  have h4: "drop 36 (''data:application/json;charset=utf-8,''
              @ (\<lambda>t. t) ((\<lambda>s. ''p'') (sp_settings ?st)))
            = (\<lambda>s. ''p'') (sp_settings ?st)"
    by simp
  from settings_round_trip [of parse_sample_settings "\<lambda>s. ''s''" ?st "\<lambda>s. ''p''" "drop 36"
      "\<lambda>t. t", OF h1 h2 h3 h4, of initial_settings] s
  show ?thesis by simp
qed

section \<open>Properties of the analysis page\<close>

subsection \<open>Job status values\<close>

text \<open>
  C1 as stated puts \<^verbatim>\<open>cancelled\<close> among the states of a job. The type
  \<^verbatim>\<open>AnalysisStatus\<close> has no such member, and \<open>getStatusText\<close> has no case for it: the
  value falls to the default branch and is shown as unknown.
\<close>

theorem cancelled_not_a_status:
  "''cancelled'' \<notin> set AnalysisStatus \<and> getStatusText ''cancelled'' = txt_unknown"
  by (simp add: AnalysisStatus_def getStatusText_def)

text \<open>
  C1, amended. The job status domain the program declares has exactly the four states
  pending, running, completed and failed. \<open>getStatusText\<close> has a text of its own for each
  of them and shows every other value, \<^verbatim>\<open>cancelled\<close> among them, as unknown.
\<close>

theorem status_domain:
  "set AnalysisStatus = {''pending'', ''running'', ''completed'', ''failed''}
   \<and> distinct AnalysisStatus
   \<and> (getStatusText s \<noteq> txt_unknown \<longleftrightarrow> s \<in> set AnalysisStatus)
   \<and> getStatusText ''pending'' = txt_pending
   \<and> getStatusText ''running'' = txt_running
   \<and> getStatusText ''completed'' = txt_completed
   \<and> getStatusText ''failed'' = txt_failed"
  by (simp add: AnalysisStatus_def getStatusText_def txt_pending_def txt_running_def
      txt_completed_def txt_failed_def txt_unknown_def)

theorem status_domain_witness:
  "getStatusText ''running'' \<noteq> txt_unknown \<and> ''running'' \<in> set AnalysisStatus
   \<and> getStatusText ''cancelled'' = txt_unknown"
  using status_domain [of "''running''"] status_domain [of "''cancelled''"]
  by (simp add: AnalysisStatus_def)

subsection \<open>Cancellation\<close>

lemma step_stays_stopped:
  assumes "\<not> ap_isRunning st" and "ev \<noteq> StartClicked"
  shows "\<not> ap_isRunning (step P ev st)
         \<and> filter is_status_request (ap_requests (step P ev st))
             = filter is_status_request (ap_requests st)"
  using assms
  by (cases ev)
     (simp_all add: runAnalysis_resolved_def runAnalysis_rejected_def interval_tick_def
        getJobStatus_resolved_def getJobStatus_rejected_def handleCancelAnalysis_def
        cancelJob_resolved_def cancelJob_rejected_def handleReset_def cancelJob_def Let_def
        split: option.splits)

lemma run_stays_stopped:
  "\<not> ap_isRunning st \<Longrightarrow> StartClicked \<notin> set evs \<Longrightarrow>
   \<not> ap_isRunning (run P evs st)
   \<and> filter is_status_request (ap_requests (run P evs st))
       = filter is_status_request (ap_requests st)"
proof (induction evs arbitrary: st)
  case Nil
  then show ?case by simp
next
  case (Cons ev evs)
  from Cons.prems have ev: "ev \<noteq> StartClicked" and evs: "StartClicked \<notin> set evs"
    by auto
  from step_stays_stopped [OF Cons.prems(1) ev, of P]
  have stopped: "\<not> ap_isRunning (step P ev st)"
    and reqs: "filter is_status_request (ap_requests (step P ev st))
               = filter is_status_request (ap_requests st)"
    by simp_all
  from Cons.IH [OF stopped evs] reqs show ?case by simp
qed

lemma step_quiescent:
  assumes "quiescent st" and "\<not> restarts ev"
  shows "quiescent (step P ev st)
         \<and> ap_jobStatus (step P ev st) = ap_jobStatus st
         \<and> ap_progress (step P ev st) = ap_progress st"
  using assms
  by (cases ev)
     (simp_all add: quiescent_def runAnalysis_resolved_def runAnalysis_rejected_def
        interval_tick_def getJobStatus_resolved_def getJobStatus_rejected_def
        handleCancelAnalysis_def cancelJob_resolved_def cancelJob_rejected_def
        split: option.splits)

lemma run_quiescent:
  "quiescent st \<Longrightarrow> list_all (\<lambda>ev. \<not> restarts ev) evs \<Longrightarrow>
   ap_jobStatus (run P evs st) = ap_jobStatus st \<and> ap_progress (run P evs st) = ap_progress st"
proof (induction evs arbitrary: st)
  case Nil
  then show ?case by simp
next
  case (Cons ev evs)
  from Cons.prems have ev: "\<not> restarts ev" and evs: "list_all (\<lambda>ev. \<not> restarts ev) evs"
    by simp_all
  from step_quiescent [OF Cons.prems(1) ev, of P] Cons.IH [OF _ evs, of "step P ev st"]
  show ?case by simp
qed

lemma cancelJob_resolved_effect:
  "0 < ap_cancels_in_flight st \<Longrightarrow>
   \<not> ap_isRunning (cancelJob_resolved st)
   \<and> ap_jobStatus (cancelJob_resolved st) = ap_jobStatus st
   \<and> ap_progress (cancelJob_resolved st) = ap_progress st
   \<and> ap_requests (cancelJob_resolved st) = ap_requests st
   \<and> ap_polls_in_flight (cancelJob_resolved st) = ap_polls_in_flight st
   \<and> ap_runs_in_flight (cancelJob_resolved st) = ap_runs_in_flight st"
  by (simp add: cancelJob_resolved_def)

lemma running_page_cancel_clicked:
  "ap_jobStatus (handleCancelAnalysis running_page) = Some (example_job ''running'' 0.2)"
  "ap_progress (handleCancelAnalysis running_page) = 20"
  "ap_polls_in_flight (handleCancelAnalysis running_page) = 0"
  "ap_runs_in_flight (handleCancelAnalysis running_page) = 0"
  "0 < ap_cancels_in_flight (handleCancelAnalysis running_page)"
  "ap_requests (handleCancelAnalysis running_page) = [HttpPost ''/api/run/job-1/cancel'' None]"
  by (simp_all add: handleCancelAnalysis_def running_page_def current_job_id_def example_job_def
      cancelJob_def)

text \<open>
  C4 as stated lets the job reach the status \<^verbatim>\<open>cancelled\<close> after a successful cancel
  call. On the page whose job runs and has no request in flight, the cancel call is sent
  and succeeds, and from then on the status the page holds for the job is the last one it
  polled, \<^verbatim>\<open>running\<close>: no later tick or answer makes it \<^verbatim>\<open>cancelled\<close>, short of the
  user starting over.
\<close>

theorem cancelled_job_keeps_running_status:
  "ap_isRunning running_page
   \<and> shown_status running_page = Some ''running''
   \<and> ap_requests (handleCancelAnalysis running_page) = [HttpPost ''/api/run/job-1/cancel'' None]
   \<and> shown_status (run sample_platform [CancelClicked, CancelResolved, Tick, Tick] running_page)
       = Some ''running''
   \<and> (\<forall>evs. \<not> (list_all (\<lambda>ev. \<not> restarts ev) evs
          \<and> shown_status
               (run sample_platform (CancelClicked # CancelResolved # evs) running_page)
              = Some ''cancelled''))"
proof -
  let ?st = "handleCancelAnalysis running_page"
  note c = running_page_cancel_clicked
  have q: "quiescent (cancelJob_resolved ?st)"
    using cancelJob_resolved_effect [OF c(5)] c by (simp add: quiescent_def)
  have frozen: "shown_status
        (run sample_platform (CancelClicked # CancelResolved # evs) running_page)
        = Some ''running''" if "list_all (\<lambda>ev. \<not> restarts ev) evs" for evs
    using run_quiescent [OF q that, of sample_platform] cancelJob_resolved_effect [OF c(5)] c
    by (simp add: shown_status_def example_job_def)
  have "shown_status
          (run sample_platform [CancelClicked, CancelResolved, Tick, Tick] running_page)
       = Some ''running''"
    using frozen [of "[Tick, Tick]"] by simp
  moreover have "ap_isRunning running_page" "shown_status running_page = Some ''running''"
    by (simp_all add: running_page_def shown_status_def example_job_def)
  ultimately show ?thesis using frozen c(6) by auto
qed

text \<open>
  C4, amended. When the answer to a cancel call arrives, the page stops polling and
  leaves the job status and the progress it holds as they are. From then on, unless the
  analysis is started again, the page sends no further status request; and when no status
  request and no submission was still in flight, neither the job status nor the progress
  it holds changes again until the user starts or resets.
\<close>

theorem cancel_stops_polling:
  assumes issued: "0 < ap_cancels_in_flight st"
    and no_start: "StartClicked \<notin> set evs"
  shows "\<not> ap_isRunning (cancelJob_resolved st)
         \<and> ap_jobStatus (cancelJob_resolved st) = ap_jobStatus st
         \<and> ap_progress (cancelJob_resolved st) = ap_progress st
         \<and> filter is_status_request (ap_requests (run P evs (cancelJob_resolved st)))
             = filter is_status_request (ap_requests st)
         \<and> (ap_polls_in_flight st = 0 \<and> ap_runs_in_flight st = 0
              \<and> list_all (\<lambda>ev. \<not> restarts ev) evs
            \<longrightarrow> ap_jobStatus (run P evs (cancelJob_resolved st)) = ap_jobStatus st
                \<and> ap_progress (run P evs (cancelJob_resolved st)) = ap_progress st)"
proof -
  note eff = cancelJob_resolved_effect [OF issued]
  from eff have stopped: "\<not> ap_isRunning (cancelJob_resolved st)"
    by simp
  have reqs: "filter is_status_request (ap_requests (run P evs (cancelJob_resolved st)))
              = filter is_status_request (ap_requests st)"
    using run_stays_stopped [OF stopped no_start, of P] eff by simp
  have frozen: "ap_jobStatus (run P evs (cancelJob_resolved st)) = ap_jobStatus st
                \<and> ap_progress (run P evs (cancelJob_resolved st)) = ap_progress st"
    if "ap_polls_in_flight st = 0" "ap_runs_in_flight st = 0"
      "list_all (\<lambda>ev. \<not> restarts ev) evs"
  proof -
    from that eff have "quiescent (cancelJob_resolved st)"
      by (simp add: quiescent_def)
    from run_quiescent [OF this that(3), of P] eff show ?thesis
      by simp
  qed
  from eff reqs frozen show ?thesis by blast
qed

theorem cancel_stops_polling_witness:
  "0 < ap_cancels_in_flight (handleCancelAnalysis running_page)
   \<and> StartClicked \<notin> set [Tick, StatusRejected, CancelClicked, Tick]
   \<and> \<not> ap_isRunning (cancelJob_resolved (handleCancelAnalysis running_page))
   \<and> filter is_status_request
        (ap_requests (run sample_platform [Tick, StatusRejected, CancelClicked, Tick]
           (cancelJob_resolved (handleCancelAnalysis running_page)))) = []
   \<and> ap_jobStatus (run sample_platform [Tick, StatusRejected, CancelClicked, Tick]
        (cancelJob_resolved (handleCancelAnalysis running_page)))
       = Some (example_job ''running'' 0.2)
   \<and> ap_progress (run sample_platform [Tick, StatusRejected, CancelClicked, Tick]
        (cancelJob_resolved (handleCancelAnalysis running_page))) = 20"
proof -
  note c = running_page_cancel_clicked
  have evs: "StartClicked \<notin> set [Tick, StatusRejected, CancelClicked, Tick]"
    "list_all (\<lambda>ev. \<not> restarts ev) [Tick, StatusRejected, CancelClicked, Tick]"
    by simp_all
  from cancel_stops_polling [OF c(5) evs(1), of sample_platform] c evs
  show ?thesis by simp
qed

text \<open>
  The side condition on requests in flight is needed. A status request sent before the
  cancel call was answered still writes when its own answer arrives afterwards: here the
  progress moves from 20 to 50 after the cancellation, and the shown status is the one
  that answer carries.
\<close>

lemma answer_in_flight_still_writes:
  "ap_progress
     (run sample_platform
        [Tick, CancelClicked, CancelResolved, StatusResolved (example_job ''running'' 0.5)]
        running_page) = 50
   \<and> \<not> ap_isRunning
     (run sample_platform
        [Tick, CancelClicked, CancelResolved, StatusResolved (example_job ''running'' 0.5)]
        running_page)
   \<and> ap_requests
     (run sample_platform
        [Tick, CancelClicked, CancelResolved, StatusResolved (example_job ''running'' 0.5)]
        running_page)
     = [HttpGet ''/api/run/job-1/status'', HttpPost ''/api/run/job-1/cancel'' None]"
  by (simp add: running_page_def interval_tick_def handleCancelAnalysis_def
      cancelJob_resolved_def getJobStatus_resolved_def current_job_id_def example_job_def
      getJobStatus_def cancelJob_def sample_platform_def)

subsection \<open>Submission\<close>

lemma handleStartAnalysis_sends:
  assumes "ap_settings st = Some s" and "upload_job_id P (ap_localStorage st) = Inr jid"
  shows "handleStartAnalysis P st
         = st\<lparr>ap_isRunning := True, ap_progress := 0,
              ap_requests := ap_requests st
                @ [HttpPost ''/api/run'' (Some \<lparr> AnalysisRequest.job_id = jid, settings = s \<rparr>)],
              ap_runs_in_flight := Suc (ap_runs_in_flight st)\<rparr>"
  using assms by (simp add: handleStartAnalysis_def runAnalysis_def)

lemma upload_job_id_stored:
  "getItem ls ''uploadResult'' = Some stored \<Longrightarrow> upload_job_id P ls = json_job_id P stored"
  by (simp add: upload_job_id_def)

lemma upload_job_id_missing:
  "getItem ls ''uploadResult'' = None \<Longrightarrow> upload_job_id P ls = json_job_id P ''{}''"
  by (simp add: upload_job_id_def)

text \<open>
  C8 as stated has every submission send the pair of a \<open>job_id\<close> and the settings, and
  store the job status that comes back. With the settings loaded and no upload result
  stored, the handler parses the empty object and still submits: the body of the request
  carries the settings and no \<open>job_id\<close>. And when the call is rejected, as the run
  endpoint does for a job that is already running, no job status is stored.
\<close>

theorem submission_without_job_id:
  "ap_settings page_without_upload = Some sample_settings
   \<and> getItem (ap_localStorage page_without_upload) ''uploadResult'' = None
   \<and> ap_requests (handleStartAnalysis sample_platform page_without_upload)
       = [HttpPost ''/api/run''
            (Some \<lparr> AnalysisRequest.job_id = None, settings = sample_settings \<rparr>)]
   \<and> ap_jobStatus
        (run sample_platform [StartClicked, RunRejected ''Job is already running'']
           page_without_upload) = None"
  by (simp add: page_without_upload_def handleStartAnalysis_def upload_job_id_def getItem_def
      sample_platform_def sample_job_id_def runAnalysis_def runAnalysis_rejected_def)

text \<open>
  C8, amended. For every submission made while an upload result with a \<open>job_id\<close> is
  stored, the page sends exactly one request, a POST to the run endpoint whose body is
  the pair of that \<open>job_id\<close> and the settings. When the call returns a job status, the
  page stores it as the current job status; when the call is rejected, the page stores
  none, stops running and raises an error toast that carries the detail.
\<close>

theorem submit_sends_request:
  assumes loaded: "ap_settings st = Some s"
    and item: "getItem (ap_localStorage st) ''uploadResult'' = Some stored"
    and parsed: "json_job_id P stored = Inr (Some jid)"
  shows "ap_requests (handleStartAnalysis P st)
           = ap_requests st
             @ [HttpPost ''/api/run''
                  (Some \<lparr> AnalysisRequest.job_id = Some jid, settings = s \<rparr>)]
         \<and> ap_isRunning (handleStartAnalysis P st)
         \<and> ap_jobStatus (runAnalysis_resolved result (handleStartAnalysis P st)) = Some result
         \<and> ap_jobStatus (run P [StartClicked, RunResolved result] st) = Some result
         \<and> ap_requests (run P [StartClicked, RunResolved result] st)
             = ap_requests (handleStartAnalysis P st)
         \<and> ap_jobStatus (run P [StartClicked, RunRejected detail] st) = ap_jobStatus st
         \<and> \<not> ap_isRunning (run P [StartClicked, RunRejected detail] st)
         \<and> ap_toasts (run P [StartClicked, RunRejected detail] st)
             = ap_toasts st @ [ToastError (msg_start_error_prefix @ detail)]"
proof -
  have jid: "upload_job_id P (ap_localStorage st) = Inr (Some jid)"
    using item parsed by (simp add: upload_job_id_stored)
  note sent = handleStartAnalysis_sends [OF loaded jid]
  show ?thesis
    by (simp add: sent runAnalysis_resolved_def runAnalysis_rejected_def)
qed

theorem submit_sends_request_witness:
  "ap_settings (handleReset running_page) = Some sample_settings
   \<and> getItem (ap_localStorage (handleReset running_page)) ''uploadResult'' = Some ''u''
   \<and> json_job_id sample_platform ''u'' = Inr (Some ''job-1'')
   \<and> ap_requests (handleStartAnalysis sample_platform (handleReset running_page))
       = [HttpPost ''/api/run''
            (Some \<lparr> AnalysisRequest.job_id = Some ''job-1'', settings = sample_settings \<rparr>)]
   \<and> ap_jobStatus
        (run sample_platform [StartClicked, RunResolved (example_job ''pending'' 0)]
           (handleReset running_page))
       = Some (example_job ''pending'' 0)
   \<and> ap_jobStatus
        (run sample_platform [StartClicked, RunRejected ''Job is already running'']
           (handleReset running_page))
       = None"
proof -
  let ?st = "handleReset running_page"
  have h1: "ap_settings ?st = Some sample_settings"
    by (simp add: handleReset_def running_page_def)
  have h2: "getItem (ap_localStorage ?st) ''uploadResult'' = Some ''u''"
    by (simp add: handleReset_def running_page_def getItem_def)
  have h3: "json_job_id sample_platform ''u'' = Inr (Some ''job-1'')"
    by (simp add: sample_platform_def sample_job_id_def)
  have before: "ap_requests ?st = []" "ap_jobStatus ?st = None"
    by (simp_all add: handleReset_def running_page_def)
  from submit_sends_request [where P = sample_platform and stored = "''u''"
      and result = "example_job ''pending'' 0" and detail = "''Job is already running''",
      OF h1 h2 h3] h1 h2 h3 before
  show ?thesis by simp
qed

section \<open>Properties of the results page\<close>

subsection \<open>Significance threshold\<close>

text \<open>
  C2 as stated makes the configured \<open>fdr_alpha\<close> the threshold of significance. With
  \<open>fdr_alpha\<close> set to 0.1, inside its range, a pair whose \<open>q_interaction\<close> is 0.07 lies
  below the configured level, yet the page does not count it, does not highlight its row,
  marks it \<^verbatim>\<open>ns\<close> and drops it under the significant-only filter.
\<close>

theorem threshold_ignores_fdr_alpha:
  "0 < fdr_alpha (initial_settings\<lparr>fdr_alpha := 0.1\<rparr>)
   \<and> fdr_alpha (initial_settings\<lparr>fdr_alpha := 0.1\<rparr>) \<le> 0.5
   \<and> q_interaction (example_result ''B'' ''G'' 0.07) < fdr_alpha (initial_settings\<lparr>fdr_alpha := 0.1\<rparr>)
   \<and> significantResults (example_analysis [example_result ''B'' ''G'' 0.07]) = []
   \<and> row_className (example_result ''B'' ''G'' 0.07) = []
   \<and> getSignificanceText (q_interaction (example_result ''B'' ''G'' 0.07)) = ''ns''
   \<and> rp_filteredResults
        (applyFilters
           \<lparr> rp_result = Some (example_analysis [example_result ''B'' ''G'' 0.07]),
             rp_filteredResults = [],
             rp_filter = \<lparr> significant = True, moderator = [], outcome = [] \<rparr> \<rparr>) = []"
  by (simp add: example_result_def example_analysis_def significantResults_def row_className_def
      getSignificanceText_def applyFilters_def)

text \<open>
  C2, amended. For every result set, a (moderator, outcome) pair is counted and marked as
  significant exactly when its \<open>q_interaction\<close> is below 0.05: that fixed level decides
  the count of significant results, the highlighting of a row, the significance mark and
  colour, and the significant-only filter. The results page does not read the settings,
  so the level is the same whatever \<open>fdr_alpha\<close> is configured.
\<close>

theorem significance_threshold_fixed:
  "(r \<in> set (significantResults result) \<longleftrightarrow> r \<in> set (results result) \<and> q_interaction r < 0.05)
   \<and> length (significantResults result)
       = length (filter (\<lambda>r. q_interaction r < 0.05) (results result))
   \<and> (row_className r = ''bg-green-50'' \<longleftrightarrow> q_interaction r < 0.05)
   \<and> (getSignificanceText (q_interaction r) \<noteq> ''ns'' \<longleftrightarrow> q_interaction r < 0.05)
   \<and> (getSignificanceColor (q_interaction r) \<noteq> ''text-gray-500'' \<longleftrightarrow> q_interaction r < 0.05)
   \<and> rp_filteredResults
        (applyFilters \<lparr> rp_result = Some result, rp_filteredResults = old,
           rp_filter = \<lparr> significant = True, moderator = [], outcome = [] \<rparr> \<rparr>)
       = significantResults result"
  by (simp add: significantResults_def row_className_def getSignificanceText_def
      getSignificanceColor_def applyFilters_def)

theorem significance_threshold_fixed_witness:
  "example_result ''B'' ''G'' 0.02
     \<in> set (significantResults
         (example_analysis [example_result ''B'' ''G'' 0.02, example_result ''C'' ''G'' 0.07]))
   \<and> row_className (example_result ''B'' ''G'' 0.02) = ''bg-green-50''
   \<and> getSignificanceText (q_interaction (example_result ''B'' ''G'' 0.02)) \<noteq> ''ns''"
proof -
  let ?r = "example_result ''B'' ''G'' 0.02"
  let ?res = "example_analysis [?r, example_result ''C'' ''G'' 0.07]"
  have q: "q_interaction ?r < 0.05"
    by (simp add: example_result_def)
  have mem: "?r \<in> set (results ?res)"
    by (simp add: example_analysis_def)
  from significance_threshold_fixed [of ?r ?res] q mem show ?thesis
    by simp
qed

subsection \<open>Filters\<close>

lemma applyFilters_filter:
  "rp_result st = Some result \<Longrightarrow>
   rp_filteredResults (applyFilters st) = filter (enabled_predicates (rp_filter st)) (results result)"
  by (auto simp: applyFilters_def enabled_predicates_def Let_def intro: filter_cong)

text \<open>
  C10. For every loaded result set and every filter state the filtered list is the full
  list restricted, in its order, to the results that satisfy every enabled predicate
  (\<open>q_interaction\<close> below 0.05 when the significant filter is on, the selected moderator,
  the selected outcome). With all filters off, and after the reset button, it is the full
  result list.
\<close>

theorem applyFilters_subsequence:
  assumes "rp_result st = Some result"
  shows "rp_filteredResults (applyFilters st)
           = filter (enabled_predicates (rp_filter st)) (results result)
         \<and> subseq (rp_filteredResults (applyFilters st)) (results result)
         \<and> (\<not> significant (rp_filter st) \<and> filter_state.moderator (rp_filter st) = []
              \<and> filter_state.outcome (rp_filter st) = []
            \<longrightarrow> rp_filteredResults (applyFilters st) = results result)
         \<and> rp_filteredResults (reset_button st) = results result"
proof -
  have eq: "rp_filteredResults (applyFilters st)
           = filter (enabled_predicates (rp_filter st)) (results result)"
    using assms by (rule applyFilters_filter)
  have sub: "subseq (rp_filteredResults (applyFilters st)) (results result)"
    unfolding eq by simp
  have off: "\<not> significant (rp_filter st) \<and> filter_state.moderator (rp_filter st) = []
              \<and> filter_state.outcome (rp_filter st) = []
            \<longrightarrow> rp_filteredResults (applyFilters st) = results result"
    unfolding eq by (simp add: enabled_predicates_def)
  have reset: "rp_filteredResults (reset_button st) = results result"
    using assms by (simp add: reset_button_def setFilter_def filter_effect_def applyFilters_def)
  from eq sub off reset show ?thesis by simp
qed

theorem applyFilters_subsequence_witness:
  "rp_result
     \<lparr> rp_result = Some (example_analysis
          [example_result ''B'' ''G'' 0.07, example_result ''C'' ''G'' 0.02,
           example_result ''B'' ''H'' 0.01, example_result ''B'' ''G'' 0.03]),
       rp_filteredResults = [],
       rp_filter = \<lparr> significant = True, moderator = ''B'', outcome = [] \<rparr> \<rparr>
     = Some (example_analysis
          [example_result ''B'' ''G'' 0.07, example_result ''C'' ''G'' 0.02,
           example_result ''B'' ''H'' 0.01, example_result ''B'' ''G'' 0.03])
   \<and> rp_filteredResults (applyFilters
       \<lparr> rp_result = Some (example_analysis
            [example_result ''B'' ''G'' 0.07, example_result ''C'' ''G'' 0.02,
             example_result ''B'' ''H'' 0.01, example_result ''B'' ''G'' 0.03]),
         rp_filteredResults = [],
         rp_filter = \<lparr> significant = True, moderator = ''B'', outcome = [] \<rparr> \<rparr>)
     = [example_result ''B'' ''H'' 0.01, example_result ''B'' ''G'' 0.03]
   \<and> rp_filteredResults (reset_button
       \<lparr> rp_result = Some (example_analysis
            [example_result ''B'' ''G'' 0.07, example_result ''C'' ''G'' 0.02,
             example_result ''B'' ''H'' 0.01, example_result ''B'' ''G'' 0.03]),
         rp_filteredResults = [],
         rp_filter = \<lparr> significant = True, moderator = ''B'', outcome = [] \<rparr> \<rparr>)
     = [example_result ''B'' ''G'' 0.07, example_result ''C'' ''G'' 0.02,
        example_result ''B'' ''H'' 0.01, example_result ''B'' ''G'' 0.03]"
proof -
  let ?rs = "[example_result ''B'' ''G'' 0.07, example_result ''C'' ''G'' 0.02,
      example_result ''B'' ''H'' 0.01, example_result ''B'' ''G'' 0.03]"
  let ?f = "\<lparr> significant = True, moderator = ''B'', outcome = [] \<rparr>"
  let ?st = "\<lparr> rp_result = Some (example_analysis ?rs), rp_filteredResults = [],
      rp_filter = ?f \<rparr>"
  have loaded: "rp_result ?st = Some (example_analysis ?rs)"
    by simp
  have rs: "results (example_analysis ?rs) = ?rs"
    by (simp add: example_analysis_def)
  have kept: "filter (enabled_predicates ?f) ?rs
      = [example_result ''B'' ''H'' 0.01, example_result ''B'' ''G'' 0.03]"
    by (simp add: enabled_predicates_def example_result_def)
  from applyFilters_subsequence [OF loaded] rs kept show ?thesis
    by simp
qed

end
